theory Spec2Isabelle
  imports Main "HOL-Library.AList"
begin

section \<open>JavaScript values and objects\<close>

text \<open>
  The fragment of JavaScript values that reaches \<^verbatim>\<open>lib/core/reflect.js\<close> and the
  \<^verbatim>\<open>@before\<close> decorator: primitives, arrays, and for every class (numbered by a
  natural number) its constructor function \<open>JClass k\<close> and its prototype object
  \<open>JPrototype k\<close>. A number only ever has its type tag inspected here, so its payload is an
  integer.
\<close>

datatype js_value =
    JUndefined
  | JNull
  | JBoolean bool
  | JNumber int
  | JString string
  | JArray "js_value list"
  | JClass nat
  | JPrototype nat

text \<open>The \<^verbatim>\<open>typeof\<close> operator.\<close>

fun typeof :: "js_value \<Rightarrow> string" where
  "typeof JUndefined = ''undefined''"
| "typeof JNull = ''object''"
| "typeof (JBoolean b) = ''boolean''"
| "typeof (JNumber n) = ''number''"
| "typeof (JString s) = ''string''"
| "typeof (JArray xs) = ''object''"
| "typeof (JClass k) = ''function''"
| "typeof (JPrototype k) = ''object''"

text \<open>
  The errors that can be thrown: the two \<^verbatim>\<open>ApplicationError\<close> classes used by the
  source, each with its message, and the \<^verbatim>\<open>TypeError\<close> that the language raises when a
  property is read from \<^verbatim>\<open>undefined\<close> or \<^verbatim>\<open>null\<close>.
\<close>

datatype error = NotFound string | IllegalValue string | TypeError

text \<open>
  The property read \<^verbatim>\<open>v.prototype\<close>: a class constructor yields its prototype object,
  \<^verbatim>\<open>undefined\<close> and \<^verbatim>\<open>null\<close> throw, every other value of the fragment has no such
  property.
\<close>

fun get_prototype :: "js_value \<Rightarrow> error + js_value" where
  "get_prototype (JClass k) = Inr (JPrototype k)"
| "get_prototype JUndefined = Inl TypeError"
| "get_prototype JNull = Inl TypeError"
| "get_prototype v = Inr JUndefined"

text \<open>
  An object used as a dictionary: its own string-keyed properties in order of creation.
  Assigning to an existing key keeps the key's position; a new key goes to the end.
\<close>

type_synonym 'v js_object = "(string \<times> 'v) list"

definition get_prop :: "'v js_object \<Rightarrow> string \<Rightarrow> 'v option" where
  "get_prop obj k = map_of obj k"

definition set_prop :: "'v js_object \<Rightarrow> string \<Rightarrow> 'v \<Rightarrow> 'v js_object" where
  "set_prop obj k v = AList.update k v obj"

text \<open>
  \<^verbatim>\<open>Object.keys\<close> lists array-index keys first (canonical decimal numerals below
  \<open>2\<^sup>3\<^sup>2 - 1\<close>) in ascending numeric order, then every other key in order of creation.
\<close>

definition is_digit :: "char \<Rightarrow> bool" where
  "is_digit c = (c \<in> set ''0123456789'')"

definition int_of_digits :: "string \<Rightarrow> int" where
  "int_of_digits s = foldl (\<lambda>n c. 10 * n + (of_char c - 48)) 0 s"

definition is_array_index :: "string \<Rightarrow> bool" where
  "is_array_index s =
     (case s of
        [] \<Rightarrow> False
      | c # cs \<Rightarrow> (c \<noteq> CHR ''0'' \<or> cs = []) \<and> list_all is_digit s \<and>
                  int_of_digits s < 4294967295)"

definition Object_keys :: "'v js_object \<Rightarrow> string list" where
  "Object_keys obj =
     (let ks = map fst obj
      in sort_key int_of_digits (filter is_array_index ks) @
         filter (\<lambda>k. \<not> is_array_index k) ks)"

section \<open>The class registration record (class \<^verbatim>\<open>Meta\<close>)\<close>

text \<open>
  The field \<^verbatim>\<open>class\<close> of the source is called \<open>klass\<close>, after the constructor's
  parameter. The private field under the symbol \<^verbatim>\<open>_registeredAt\<close> is only reachable
  through its getter, which is the record selector \<open>registeredAt\<close>.
\<close>

record Meta =
  path :: string
  klass :: js_value
  registeredAt :: int

text \<open>The constructor; \<open>now\<close> is what \<^verbatim>\<open>Date.now()\<close> returns at the call.\<close>

definition Meta_new :: "string \<Rightarrow> js_value \<Rightarrow> int \<Rightarrow> Meta" where
  "Meta_new p k now = \<lparr>path = p, klass = k, registeredAt = now\<rparr>"

section \<open>The reflection registry (methods added to \<^verbatim>\<open>Ravel.prototype\<close>)\<close>

text \<open>
  Registry objects live in a store of objects addressed by references; an application
  instance holds, under \<^verbatim>\<open>symbols.knownClasses\<close>, the reference of its registry.
\<close>

record world =
  heap :: "nat \<Rightarrow> Meta js_object"
  next_ref :: nat

record Ravel =
  knownClasses_ref :: nat

text \<open>The process before anything has been allocated.\<close>

definition empty_world :: world where
  "empty_world = \<lparr>heap = (\<lambda>r. []), next_ref = 0\<rparr>"

text \<open>
  Modelled from the spec: the constructor of \<^verbatim>\<open>Ravel\<close>, which creates the object held
  under \<^verbatim>\<open>symbols.knownClasses\<close>, is not among the sources. The spec describes the registry
  as a mapping from path to record with unique keys, owned by one application instance: the
  constructor allocates a fresh object that has no properties, own or inherited.
\<close>

definition Ravel_new :: "world \<Rightarrow> Ravel \<times> world" where
  "Ravel_new w =
     (\<lparr>knownClasses_ref = next_ref w\<rparr>,
      w\<lparr>heap := (heap w)(next_ref w := []), next_ref := Suc (next_ref w)\<rparr>)"

text \<open>
  \<^verbatim>\<open>Ravel.prototype[symbols.registerClassFunc]\<close>. The path is a string, as the source
  documents it; \<open>now\<close> is the reading of \<^verbatim>\<open>Date.now()\<close> taken by the constructor of
  \<^verbatim>\<open>Meta\<close>. The method has no throwing branch.
\<close>

definition registerClassFunc :: "Ravel \<Rightarrow> string \<Rightarrow> js_value \<Rightarrow> int \<Rightarrow> world \<Rightarrow> world" where
  "registerClassFunc this p k now w =
     w\<lparr>heap := (heap w)(knownClasses_ref this :=
          set_prop (heap w (knownClasses_ref this)) p (Meta_new p k now))\<rparr>"

text \<open>
  \<^verbatim>\<open>Ravel.prototype.reflect\<close>. The registry only ever holds \<^verbatim>\<open>Meta\<close> objects, which
  are truthy, so the test \<^verbatim>\<open>!this[symbols.knownClasses][filePath]\<close> succeeds exactly when
  the key is absent. The world is returned as the method leaves it.
\<close>

definition reflect :: "Ravel \<Rightarrow> string \<Rightarrow> world \<Rightarrow> (error + Meta) \<times> world" where
  "reflect this filePath w =
     (case get_prop (heap w (knownClasses_ref this)) filePath of
        None \<Rightarrow> (Inl (NotFound (''Class at '' @ filePath @ '' is not registered with Ravel.'')), w)
      | Some m \<Rightarrow> (Inr m, w))"

text \<open>\<^verbatim>\<open>Ravel.prototype.knownClasses\<close>\<close>

definition knownClasses :: "Ravel \<Rightarrow> world \<Rightarrow> string list \<times> world" where
  "knownClasses this w = (Object_keys (heap w (knownClasses_ref this)), w)"

text \<open>A sequence of calls of the registration method on one instance, oldest first.\<close>

fun register_all :: "Ravel \<Rightarrow> (string \<times> js_value \<times> int) list \<Rightarrow> world \<Rightarrow> world" where
  "register_all this [] w = w"
| "register_all this ((p, k, now) # rs) w = register_all this rs (registerClassFunc this p k now w)"

section \<open>The metadata store (module \<^verbatim>\<open>util/meta\<close>)\<close>

text \<open>
  Modelled from the spec: the module \<^verbatim>\<open>util/meta\<close> is not among the sources. The spec
  gives, for every identity passed as first argument, class-level metadata (namespace to
  attachment key to value) and, per method name, method-level metadata of the same shape;
  entries are created on first write and overwritten by a later write to the same place;
  the store accepts any identity and has no error conditions; an identity that was never
  written to reads as an empty structure.
\<close>

record MetaData =
  class_meta :: "js_value js_object js_object"
  method_meta :: "js_value js_object js_object js_object"

type_synonym meta_store = "js_value \<Rightarrow> MetaData"

definition empty_store :: meta_store where
  "empty_store = (\<lambda>c. \<lparr>class_meta = [], method_meta = []\<rparr>)"

definition or_empty :: "'v js_object option \<Rightarrow> 'v js_object" where
  "or_empty x = (case x of None \<Rightarrow> [] | Some obj \<Rightarrow> obj)"

definition put_category ::
  "js_value js_object js_object \<Rightarrow> string \<Rightarrow> string \<Rightarrow> js_value \<Rightarrow> js_value js_object js_object" where
  "put_category cats ns k v = set_prop cats ns (set_prop (or_empty (get_prop cats ns)) k v)"

definition putClassMeta :: "meta_store \<Rightarrow> js_value \<Rightarrow> string \<Rightarrow> string \<Rightarrow> js_value \<Rightarrow> meta_store" where
  "putClassMeta s c ns k v = s(c := (s c)\<lparr>class_meta := put_category (class_meta (s c)) ns k v\<rparr>)"

definition putMethodMeta ::
  "meta_store \<Rightarrow> js_value \<Rightarrow> string \<Rightarrow> string \<Rightarrow> string \<Rightarrow> js_value \<Rightarrow> meta_store" where
  "putMethodMeta s c m ns k v =
     s(c := (s c)\<lparr>method_meta :=
          set_prop (method_meta (s c)) m
            (put_category (or_empty (get_prop (method_meta (s c)) m)) ns k v)\<rparr>)"

definition getMeta :: "meta_store \<Rightarrow> js_value \<Rightarrow> MetaData" where
  "getMeta s c = s c"

text \<open>
  Modelled from the spec: the readers of the module are not among the sources either. One
  value is read out of a view by namespace and attachment key, an absent namespace or method
  reading as empty.
\<close>

definition class_value :: "MetaData \<Rightarrow> string \<Rightarrow> string \<Rightarrow> js_value option" where
  "class_value md ns k = get_prop (or_empty (get_prop (class_meta md) ns)) k"

definition method_value :: "MetaData \<Rightarrow> string \<Rightarrow> string \<Rightarrow> string \<Rightarrow> js_value option" where
  "method_value md m ns k =
     get_prop (or_empty (get_prop (or_empty (get_prop (method_meta md) m)) ns)) k"

text \<open>
  Modelled from the spec: the consumer that orders middleware is not among the sources.
  The spec's merge rule for a method is the class-level list followed by the method-level
  list, a missing entry counting as the empty list.
\<close>

definition middleware_of :: "js_value js_object js_object \<Rightarrow> string \<Rightarrow> js_value list" where
  "middleware_of cats ns =
     (case get_prop (or_empty (get_prop cats ns)) ''middleware'' of
        Some (JArray xs) \<Rightarrow> xs
      | _ \<Rightarrow> [])"

definition effective_middleware :: "MetaData \<Rightarrow> string \<Rightarrow> string \<Rightarrow> js_value list" where
  "effective_middleware md ns m =
     middleware_of (class_meta md) ns @
     middleware_of (or_empty (get_prop (method_meta md) m)) ns"

text \<open>The getter \<^verbatim>\<open>metadata\<close> of class \<^verbatim>\<open>Meta\<close>.\<close>

definition metadata :: "Meta \<Rightarrow> meta_store \<Rightarrow> error + MetaData" where
  "metadata this s =
     (case get_prototype (klass this) of
        Inl e \<Rightarrow> Inl e
      | Inr proto \<Rightarrow> Inr (getMeta s proto))"

section \<open>The \<^verbatim>\<open>@before\<close> decorator\<close>

text \<open>
  The loop over the arguments: the first one whose type is not \<^verbatim>\<open>string\<close> throws.
\<close>

fun before_validate :: "js_value list \<Rightarrow> error + unit" where
  "before_validate [] = Inr ()"
| "before_validate (r # rest) =
     (if typeof r \<noteq> ''string''
      then Inl (IllegalValue ''Values supplied to @before decorator must be strings.'')
      else before_validate rest)"

text \<open>
  The function that \<^verbatim>\<open>before\<close> returns, with the captured argument array \<open>rest\<close>. It is
  applied to a target and a method name; \<open>None\<close> is the key \<^verbatim>\<open>undefined\<close> of a class-level
  application. Method names are strings (symbol-named methods are not covered). The result
  is the outcome together with the metadata store as the call leaves it.
\<close>

definition key_text :: "string option \<Rightarrow> string" where
  "key_text key = (case key of None \<Rightarrow> ''undefined'' | Some m \<Rightarrow> m)"

type_synonym configurator =
  "js_value \<Rightarrow> string option \<Rightarrow> meta_store \<Rightarrow> (error + unit) \<times> meta_store"

definition before_configurator :: "js_value list \<Rightarrow> configurator" where
  "before_configurator rest target key s =
     (if length rest = 0 then
        (Inl (NotFound (''Empty @before supplied on method '' @ key_text key @
                        '' of Resource '' @ typeof target)), s)
      else
        (case key of
           None \<Rightarrow>
             (case get_prototype target of
                Inl e \<Rightarrow> (Inl e, s)
              | Inr proto \<Rightarrow>
                  (Inr (), putClassMeta s proto ''@before'' ''middleware'' (JArray rest)))
         | Some m \<Rightarrow>
             (Inr (), putMethodMeta s target m ''@before'' ''middleware'' (JArray rest))))"

text \<open>
  \<^verbatim>\<open>before(...rest)\<close>: validation, then the configurator. The metadata store is threaded
  through to record that the call itself leaves it alone.
\<close>

definition before :: "js_value list \<Rightarrow> meta_store \<Rightarrow> (error + configurator) \<times> meta_store" where
  "before rest s =
     (case before_validate rest of
        Inl e \<Rightarrow> (Inl e, s)
      | Inr u \<Rightarrow> (Inr (before_configurator rest), s))"

text \<open>
  The decorator in use, \<^verbatim>\<open>before(...rest)(target, key)\<close>: the call of \<^verbatim>\<open>before\<close> and,
  when it returned, the application of its result to the target.
\<close>

definition decorate ::
  "js_value list \<Rightarrow> js_value \<Rightarrow> string option \<Rightarrow> meta_store \<Rightarrow> (error + unit) \<times> meta_store" where
  "decorate rest target key s =
     (case before rest s of
        (Inl e, s') \<Rightarrow> (Inl e, s')
      | (Inr cfg, s') \<Rightarrow> cfg target key s')"

section \<open>The end-to-end scenario\<close>

text \<open>
  Class \<^verbatim>\<open>Foo\<close> is class number 0. It is registered at \<^verbatim>\<open>/foo.js\<close> on a new instance
  (clock reading 0), decorated at class level with \<^verbatim>\<open>before('auth', 'log')\<close>, and its
  method \<^verbatim>\<open>get\<close> with \<^verbatim>\<open>before('cache')\<close>; a class decorator receives the constructor,
  a method decorator the prototype and the method's name.
\<close>

definition scenario_app :: Ravel where
  "scenario_app = fst (Ravel_new empty_world)"

definition scenario_world :: world where
  "scenario_world =
     registerClassFunc scenario_app ''/foo.js'' (JClass 0) 0 (snd (Ravel_new empty_world))"

definition scenario_store :: meta_store where
  "scenario_store =
     snd (decorate [JString ''cache''] (JPrototype 0) (Some ''get'')
       (snd (decorate [JString ''auth'', JString ''log''] (JClass 0) None empty_store)))"

section \<open>Properties of the registry\<close>

lemma get_prop_registerClassFunc:
  "get_prop (heap (registerClassFunc this p k now w) r) q =
     (if r = knownClasses_ref this \<and> q = p then Some (Meta_new p k now)
      else get_prop (heap w r) q)"
  by (simp add: registerClassFunc_def get_prop_def set_prop_def update_conv')

lemma heap_registerClassFunc_other:
  "r \<noteq> knownClasses_ref this \<Longrightarrow> heap (registerClassFunc this p k now w) r = heap w r"
  by (simp add: registerClassFunc_def)

lemma heap_register_all_other:
  "r \<noteq> knownClasses_ref this \<Longrightarrow> heap (register_all this rs w) r = heap w r"
  by (induction this rs w rule: register_all.induct) (simp_all add: heap_registerClassFunc_other)

lemma next_ref_register_all: "next_ref (register_all this rs w) = next_ref w"
  by (induction this rs w rule: register_all.induct) (simp_all add: registerClassFunc_def)

lemma register_all_append:
  "register_all this (rs @ rs') w = register_all this rs' (register_all this rs w)"
  by (induction this rs w rule: register_all.induct) simp_all

lemma get_prop_register_all_unregistered:
  "q \<notin> fst ` set rs \<Longrightarrow> get_prop (heap (register_all this rs w) r) q = get_prop (heap w r) q"
  by (induction this rs w rule: register_all.induct) (auto simp: get_prop_registerClassFunc)

lemma keys_registerClassFunc:
  "fst ` set (heap (registerClassFunc this p k now w) (knownClasses_ref this)) =
     insert p (fst ` set (heap w (knownClasses_ref this)))"
  by (simp add: registerClassFunc_def set_prop_def dom_update)

lemma keys_register_all:
  "fst ` set (heap (register_all this rs w) (knownClasses_ref this)) =
     fst ` set (heap w (knownClasses_ref this)) \<union> fst ` set rs"
  by (induction this rs w rule: register_all.induct) (auto simp: keys_registerClassFunc)

lemma distinct_registerClassFunc:
  "distinct (map fst (heap w r)) \<Longrightarrow> distinct (map fst (heap (registerClassFunc this p k now w) r))"
  by (auto simp: registerClassFunc_def set_prop_def distinct_update)

lemma distinct_register_all:
  "distinct (map fst (heap w r)) \<Longrightarrow> distinct (map fst (heap (register_all this rs w) r))"
  by (induction this rs w rule: register_all.induct) (simp_all add: distinct_registerClassFunc)

lemma set_Object_keys: "set (Object_keys obj) = fst ` set obj"
  by (auto simp: Object_keys_def Let_def)

lemma distinct_Object_keys: "distinct (map fst obj) \<Longrightarrow> distinct (Object_keys obj)"
  by (auto simp: Object_keys_def Let_def)

lemma heap_Ravel_new: "Ravel_new w0 = (app, w1) \<Longrightarrow> heap w1 (knownClasses_ref app) = []"
  by (auto simp: Ravel_new_def)

lemma ref_Ravel_new:
  "Ravel_new w0 = (app, w1) \<Longrightarrow> knownClasses_ref app = next_ref w0 \<and> next_ref w1 = Suc (next_ref w0)"
  by (auto simp: Ravel_new_def)

text \<open>
  Claim C1. On an instance made by the constructor, after any sequence \<open>rs\<close> of
  registrations: a path that occurs nowhere in \<open>rs\<close> makes \<^verbatim>\<open>reflect\<close> fail with
  \<^verbatim>\<open>NotFound\<close>; a path that does occur makes it return, without failing, the record
  stored by the last registration of that path.
\<close>

theorem reflect_after_registrations:
  assumes "Ravel_new w0 = (app, w1)"
  shows "(p \<notin> fst ` set rs \<longrightarrow>
            fst (reflect app p (register_all app rs w1)) =
              Inl (NotFound (''Class at '' @ p @ '' is not registered with Ravel.''))) \<and>
         (rs = pre @ (p, k, t) # post \<and> p \<notin> fst ` set post \<longrightarrow>
            fst (reflect app p (register_all app rs w1)) =
              Inr \<lparr>path = p, klass = k, registeredAt = t\<rparr>)"
proof (intro conjI impI)
  assume "p \<notin> fst ` set rs"
  then have "get_prop (heap (register_all app rs w1) (knownClasses_ref app)) p =
               get_prop (heap w1 (knownClasses_ref app)) p"
    by (rule get_prop_register_all_unregistered)
  also have "\<dots> = None"
    using heap_Ravel_new [OF assms] by (simp add: get_prop_def)
  finally show "fst (reflect app p (register_all app rs w1)) =
      Inl (NotFound (''Class at '' @ p @ '' is not registered with Ravel.''))"
    by (simp add: reflect_def)
next
  assume a: "rs = pre @ (p, k, t) # post \<and> p \<notin> fst ` set post"
  then have "register_all app rs w1 =
      register_all app post (registerClassFunc app p k t (register_all app pre w1))"
    by (simp add: register_all_append)
  then have "get_prop (heap (register_all app rs w1) (knownClasses_ref app)) p =
      Some (Meta_new p k t)"
    using a by (simp add: get_prop_register_all_unregistered get_prop_registerClassFunc)
  then show "fst (reflect app p (register_all app rs w1)) =
      Inr \<lparr>path = p, klass = k, registeredAt = t\<rparr>"
    by (simp add: reflect_def Meta_new_def)
qed

theorem reflect_after_registrations_witness:
  "fst (reflect (fst (Ravel_new empty_world)) ''/c.js''
         (register_all (fst (Ravel_new empty_world))
            [(''/a.js'', JClass 1, 100), (''/b.js'', JClass 2, 200), (''/a.js'', JClass 3, 300)]
            (snd (Ravel_new empty_world)))) =
     Inl (NotFound ''Class at /c.js is not registered with Ravel.'') \<and>
   fst (reflect (fst (Ravel_new empty_world)) ''/a.js''
         (register_all (fst (Ravel_new empty_world))
            [(''/a.js'', JClass 1, 100), (''/b.js'', JClass 2, 200), (''/a.js'', JClass 3, 300)]
            (snd (Ravel_new empty_world)))) =
     Inr \<lparr>path = ''/a.js'', klass = JClass 3, registeredAt = 300\<rparr>"
proof -
  have h: "Ravel_new empty_world = (fst (Ravel_new empty_world), snd (Ravel_new empty_world))"
    by simp
  have absent: "''/c.js'' \<notin> fst ` set
      [(''/a.js'', JClass 1, 100::int), (''/b.js'', JClass 2, 200), (''/a.js'', JClass 3, 300)]"
    by simp
  have split: "[(''/a.js'', JClass 1, 100::int), (''/b.js'', JClass 2, 200), (''/a.js'', JClass 3, 300)] =
      [(''/a.js'', JClass 1, 100), (''/b.js'', JClass 2, 200)] @ (''/a.js'', JClass 3, 300) # [] \<and>
      ''/a.js'' \<notin> fst ` set ([] :: (string \<times> js_value \<times> int) list)"
    by simp
  from reflect_after_registrations [OF h, where p = "''/c.js''" and rs = "[(''/a.js'', JClass 1, 100), (''/b.js'', JClass 2, 200), (''/a.js'', JClass 3, 300)]"] absent
  have 1: "fst (reflect (fst (Ravel_new empty_world)) ''/c.js''
         (register_all (fst (Ravel_new empty_world))
            [(''/a.js'', JClass 1, 100), (''/b.js'', JClass 2, 200), (''/a.js'', JClass 3, 300)]
            (snd (Ravel_new empty_world)))) =
     Inl (NotFound ''Class at /c.js is not registered with Ravel.'')"
    by simp
  from reflect_after_registrations [OF h, where p = "''/a.js''" and k = "JClass 3" and t = 300 and post = "[]"
      and pre = "[(''/a.js'', JClass 1, 100), (''/b.js'', JClass 2, 200)]"
      and rs = "[(''/a.js'', JClass 1, 100), (''/b.js'', JClass 2, 200), (''/a.js'', JClass 3, 300)]"] split
  have 2: "fst (reflect (fst (Ravel_new empty_world)) ''/a.js''
         (register_all (fst (Ravel_new empty_world))
            [(''/a.js'', JClass 1, 100), (''/b.js'', JClass 2, 200), (''/a.js'', JClass 3, 300)]
            (snd (Ravel_new empty_world)))) =
     Inr \<lparr>path = ''/a.js'', klass = JClass 3, registeredAt = 300\<rparr>"
    by blast
  from 1 2 show ?thesis by simp
qed

text \<open>
  Claim C2. Registering class \<open>k\<close> at path \<open>p\<close> has no failing branch, and a lookup of
  \<open>p\<close> right afterwards returns the record with path \<open>p\<close>, class \<open>k\<close> and the timestamp of
  this call, whatever the registry held for \<open>p\<close> before: the old record is replaced, nothing
  of it is kept.
\<close>

theorem register_then_reflect:
  "fst (reflect this p (registerClassFunc this p k now w)) =
     Inr \<lparr>path = p, klass = k, registeredAt = now\<rparr>"
  by (simp add: reflect_def get_prop_registerClassFunc Meta_new_def)

lemma keys_reregister:
  "p \<in> fst ` set (heap w (knownClasses_ref this)) \<Longrightarrow>
     map fst (heap (registerClassFunc this p k now w) (knownClasses_ref this)) =
     map fst (heap w (knownClasses_ref this))"
  by (simp add: registerClassFunc_def set_prop_def update_keys)

lemma fst_reflect:
  "fst (reflect this p w) =
     (case get_prop (heap w (knownClasses_ref this)) p of
        None \<Rightarrow> Inl (NotFound (''Class at '' @ p @ '' is not registered with Ravel.''))
      | Some m \<Rightarrow> Inr m)"
  by (simp add: reflect_def split: option.split)

text \<open>
  Claim C7. On an instance made by the constructor, after any sequence of registrations
  (any paths, any classes, any order, repetitions included) \<^verbatim>\<open>knownClasses\<close> lists exactly
  the registered paths: each of them, each once, and no other.
\<close>

theorem knownClasses_exact:
  assumes "Ravel_new w0 = (app, w1)"
  shows "set (fst (knownClasses app (register_all app rs w1))) = fst ` set rs \<and>
         distinct (fst (knownClasses app (register_all app rs w1)))"
proof -
  have empty: "heap w1 (knownClasses_ref app) = []"
    using assms by (rule heap_Ravel_new)
  have "fst ` set (heap (register_all app rs w1) (knownClasses_ref app)) = fst ` set rs"
    by (simp add: keys_register_all empty)
  moreover have "distinct (map fst (heap (register_all app rs w1) (knownClasses_ref app)))"
    by (rule distinct_register_all) (simp add: empty)
  ultimately show ?thesis
    by (simp add: knownClasses_def set_Object_keys distinct_Object_keys)
qed

theorem knownClasses_exact_witness:
  "set (fst (knownClasses (fst (Ravel_new empty_world))
          (register_all (fst (Ravel_new empty_world))
             [(''/b.js'', JClass 1, 100), (''/a.js'', JClass 2, 200), (''/b.js'', JClass 3, 300)]
             (snd (Ravel_new empty_world))))) = {''/a.js'', ''/b.js''}"
proof -
  have h: "Ravel_new empty_world = (fst (Ravel_new empty_world), snd (Ravel_new empty_world))"
    by simp
  from knownClasses_exact [OF h,
      where rs = "[(''/b.js'', JClass 1, 100), (''/a.js'', JClass 2, 200), (''/b.js'', JClass 3, 300)]"]
  show ?thesis by auto
qed

text \<open>
  Claim C8, as stated, fails: the timestamp of a record is what \<^verbatim>\<open>Date.now()\<close> returned
  when the record was built, and the wall clock may be set back between two calls. With the
  readings 10 and then 5, the second registration of \<^verbatim>\<open>/foo.js\<close> leaves a record whose
  \<^verbatim>\<open>registeredAt\<close> is smaller than the one observed after the first.
\<close>

theorem registeredAt_can_decrease:
  "fst (reflect (fst (Ravel_new empty_world)) ''/foo.js''
         (registerClassFunc (fst (Ravel_new empty_world)) ''/foo.js'' (JClass 0) 10
            (snd (Ravel_new empty_world)))) =
     Inr \<lparr>path = ''/foo.js'', klass = JClass 0, registeredAt = 10\<rparr> \<and>
   fst (reflect (fst (Ravel_new empty_world)) ''/foo.js''
         (registerClassFunc (fst (Ravel_new empty_world)) ''/foo.js'' (JClass 0) 5
            (registerClassFunc (fst (Ravel_new empty_world)) ''/foo.js'' (JClass 0) 10
               (snd (Ravel_new empty_world))))) =
     Inr \<lparr>path = ''/foo.js'', klass = JClass 0, registeredAt = 5\<rparr> \<and>
   \<not> (10::int) \<le> 5"
  by (simp add: reflect_def get_prop_registerClassFunc Meta_new_def)

text \<open>
  Claim C8, amended. Registering a path twice replaces the record by the one built at the
  second call (its class and its clock reading; the path is listed once, as before), and
  \<^verbatim>\<open>registeredAt\<close> after the second registration is not below the value after the first
  provided the clock reading at the second call is not below the reading at the first.
\<close>

theorem reregister_timestamp:
  assumes "t1 \<le> t2"
  shows "(case (fst (reflect this p (registerClassFunc this p k1 t1 w)),
               fst (reflect this p
                      (registerClassFunc this p k2 t2 (registerClassFunc this p k1 t1 w)))) of
            (Inr m1, Inr m2) \<Rightarrow>
               m2 = \<lparr>path = p, klass = k2, registeredAt = t2\<rparr> \<and>
               registeredAt m1 = t1 \<and> registeredAt m1 \<le> registeredAt m2
          | _ \<Rightarrow> False) \<and>
         fst (knownClasses this (registerClassFunc this p k2 t2 (registerClassFunc this p k1 t1 w))) =
         fst (knownClasses this (registerClassFunc this p k1 t1 w))"
proof -
  have "p \<in> fst ` set (heap (registerClassFunc this p k1 t1 w) (knownClasses_ref this))"
    by (simp add: keys_registerClassFunc)
  then have "map fst (heap (registerClassFunc this p k2 t2 (registerClassFunc this p k1 t1 w))
                 (knownClasses_ref this)) =
             map fst (heap (registerClassFunc this p k1 t1 w) (knownClasses_ref this))"
    by (rule keys_reregister)
  then show ?thesis
    using assms
    by (simp add: reflect_def get_prop_registerClassFunc Meta_new_def knownClasses_def
        Object_keys_def)
qed

theorem reregister_timestamp_witness:
  "(100::int) \<le> 250 \<and>
   fst (reflect (fst (Ravel_new empty_world)) ''/foo.js''
         (registerClassFunc (fst (Ravel_new empty_world)) ''/foo.js'' (JClass 1) 250
            (registerClassFunc (fst (Ravel_new empty_world)) ''/foo.js'' (JClass 0) 100
               (snd (Ravel_new empty_world))))) =
     Inr \<lparr>path = ''/foo.js'', klass = JClass 1, registeredAt = 250\<rparr>"
proof -
  have h: "(100::int) \<le> 250" by simp
  from reregister_timestamp [OF h, where this = "fst (Ravel_new empty_world)" and p = "''/foo.js''"
      and ?k1.0 = "JClass 0" and ?k2.0 = "JClass 1" and w = "snd (Ravel_new empty_world)"]
  show ?thesis
    by (simp split: sum.splits)
qed

text \<open>
  Claim C9. Two instances made by the constructor, the second after any registrations on
  the first, hold different registry objects: in every world, a registration on one changes
  neither what \<^verbatim>\<open>reflect\<close> nor what \<^verbatim>\<open>knownClasses\<close> returns on the other, and on the
  fresh second instance a lookup still fails with \<^verbatim>\<open>NotFound\<close> and the list of paths is
  still empty after a registration on the first.
\<close>

theorem registry_isolated:
  assumes "Ravel_new w0 = (a, w1)" and "Ravel_new (register_all a rs w1) = (b, w2)"
  shows "fst (reflect b q (registerClassFunc a p k t w)) = fst (reflect b q w) \<and>
         fst (knownClasses b (registerClassFunc a p k t w)) = fst (knownClasses b w) \<and>
         fst (reflect a q (registerClassFunc b p k t w)) = fst (reflect a q w) \<and>
         fst (knownClasses a (registerClassFunc b p k t w)) = fst (knownClasses a w) \<and>
         fst (reflect b q (registerClassFunc a p k t w2)) =
           Inl (NotFound (''Class at '' @ q @ '' is not registered with Ravel.'')) \<and>
         fst (knownClasses b (registerClassFunc a p k t w2)) = []"
proof -
  have "knownClasses_ref a = next_ref w0" and "next_ref w1 = Suc (next_ref w0)"
    using ref_Ravel_new [OF assms(1)] by simp_all
  moreover have "knownClasses_ref b = next_ref (register_all a rs w1)"
    using ref_Ravel_new [OF assms(2)] by simp
  ultimately have ne: "knownClasses_ref b \<noteq> knownClasses_ref a"
    by (simp add: next_ref_register_all)
  have ba: "heap (registerClassFunc a p k t w') (knownClasses_ref b) = heap w' (knownClasses_ref b)" for w'
    using ne by (simp add: heap_registerClassFunc_other)
  have ab: "heap (registerClassFunc b p k t w') (knownClasses_ref a) = heap w' (knownClasses_ref a)" for w'
    using ne by (simp add: heap_registerClassFunc_other)
  have fresh: "heap w2 (knownClasses_ref b) = []"
    using assms(2) by (rule heap_Ravel_new)
  show ?thesis
    by (simp add: fst_reflect knownClasses_def ba ab fresh get_prop_def Object_keys_def)
qed

theorem registry_isolated_witness:
  "fst (knownClasses (fst (Ravel_new (snd (Ravel_new empty_world))))
         (registerClassFunc (fst (Ravel_new empty_world)) ''/foo.js'' (JClass 0) 7
            (snd (Ravel_new (snd (Ravel_new empty_world)))))) = [] \<and>
   fst (reflect (fst (Ravel_new (snd (Ravel_new empty_world)))) ''/foo.js''
         (registerClassFunc (fst (Ravel_new empty_world)) ''/foo.js'' (JClass 0) 7
            (snd (Ravel_new (snd (Ravel_new empty_world)))))) =
     Inl (NotFound ''Class at /foo.js is not registered with Ravel.'')"
proof -
  have h1: "Ravel_new empty_world = (fst (Ravel_new empty_world), snd (Ravel_new empty_world))"
    by simp
  have h2: "Ravel_new (register_all (fst (Ravel_new empty_world)) [] (snd (Ravel_new empty_world))) =
      (fst (Ravel_new (snd (Ravel_new empty_world))), snd (Ravel_new (snd (Ravel_new empty_world))))"
    by simp
  from registry_isolated [OF h1 h2, where q = "''/foo.js''" and p = "''/foo.js''" and k = "JClass 0" and t = 7
      and w = "snd (Ravel_new (snd (Ravel_new empty_world)))"]
  have "fst (knownClasses (fst (Ravel_new (snd (Ravel_new empty_world))))
         (registerClassFunc (fst (Ravel_new empty_world)) ''/foo.js'' (JClass 0) 7
            (snd (Ravel_new (snd (Ravel_new empty_world)))))) = []"
   and "fst (reflect (fst (Ravel_new (snd (Ravel_new empty_world)))) ''/foo.js''
         (registerClassFunc (fst (Ravel_new empty_world)) ''/foo.js'' (JClass 0) 7
            (snd (Ravel_new (snd (Ravel_new empty_world)))))) =
     Inl (NotFound (''Class at '' @ ''/foo.js'' @ '' is not registered with Ravel.''))"
    by blast+
  then show ?thesis by simp
qed

text \<open>
  Claim C10. \<^verbatim>\<open>reflect\<close> and \<^verbatim>\<open>knownClasses\<close> leave the world as they find it, so a
  second call of either, after any of the two, returns what the first call returned: the
  same record (path, class and timestamp) or the same failure, and the same list of paths.
\<close>

theorem reads_are_pure:
  "snd (reflect this p w) = w \<and>
   snd (knownClasses this w) = w \<and>
   reflect this p (snd (reflect this p w)) = reflect this p w \<and>
   reflect this p (snd (knownClasses this w)) = reflect this p w \<and>
   knownClasses this (snd (knownClasses this w)) = knownClasses this w \<and>
   knownClasses this (snd (reflect this p w)) = knownClasses this w"
proof -
  have r: "snd (reflect this p w) = w"
    by (simp add: reflect_def split: option.split)
  have k: "snd (knownClasses this w) = w"
    by (simp add: knownClasses_def)
  show ?thesis by (simp add: r k)
qed

section \<open>Properties of the decorator\<close>

lemma before_validate_non_string:
  "r \<in> set rest \<Longrightarrow> typeof r \<noteq> ''string'' \<Longrightarrow>
     before_validate rest =
       Inl (IllegalValue ''Values supplied to @before decorator must be strings.'')"
  by (induction rest) auto

lemma before_validate_strings:
  "\<forall>r\<in>set rest. typeof r = ''string'' \<Longrightarrow> before_validate rest = Inr ()"
  by (induction rest) auto

lemma get_prop_set_prop:
  "get_prop (set_prop obj k v) k' = (if k' = k then Some v else get_prop obj k')"
  by (simp add: get_prop_def set_prop_def update_conv')

lemma class_value_putClassMeta:
  "class_value (getMeta (putClassMeta s c ns k v) c') ns' k' =
     (if c' = c \<and> ns' = ns \<and> k' = k then Some v else class_value (getMeta s c') ns' k')"
  by (simp add: class_value_def getMeta_def putClassMeta_def put_category_def get_prop_set_prop
      or_empty_def)

lemma method_meta_putClassMeta:
  "method_meta (getMeta (putClassMeta s c ns k v) c') = method_meta (getMeta s c')"
  by (simp add: getMeta_def putClassMeta_def)

lemma getMeta_putClassMeta_other:
  "c' \<noteq> c \<Longrightarrow> getMeta (putClassMeta s c ns k v) c' = getMeta s c'"
  by (simp add: getMeta_def putClassMeta_def)

lemma method_value_putMethodMeta:
  "method_value (getMeta (putMethodMeta s c m ns k v) c') m' ns' k' =
     (if c' = c \<and> m' = m \<and> ns' = ns \<and> k' = k then Some v
      else method_value (getMeta s c') m' ns' k')"
  by (simp add: method_value_def getMeta_def putMethodMeta_def put_category_def get_prop_set_prop
      or_empty_def)

lemma class_meta_putMethodMeta:
  "class_meta (getMeta (putMethodMeta s c m ns k v) c') = class_meta (getMeta s c')"
  by (simp add: getMeta_def putMethodMeta_def)

lemma getMeta_putMethodMeta_other:
  "c' \<noteq> c \<Longrightarrow> getMeta (putMethodMeta s c m ns k v) c' = getMeta s c'"
  by (simp add: getMeta_def putMethodMeta_def)

text \<open>
  Claim C3. When some argument of \<^verbatim>\<open>before\<close> is not a string, the call itself throws
  \<^verbatim>\<open>IllegalValue\<close>: no configurator is returned, so none is applied to any target, and the
  metadata store is as it was.
\<close>

theorem before_rejects_non_string:
  assumes "r \<in> set rest" and "typeof r \<noteq> ''string''"
  shows "before rest s =
           (Inl (IllegalValue ''Values supplied to @before decorator must be strings.''), s) \<and>
         decorate rest target key s =
           (Inl (IllegalValue ''Values supplied to @before decorator must be strings.''), s)"
  using before_validate_non_string [OF assms] by (simp add: before_def decorate_def)

theorem before_rejects_non_string_witness:
  "JNumber 42 \<in> set [JString ''auth'', JNumber 42] \<and> typeof (JNumber 42) \<noteq> ''string'' \<and>
   before [JString ''auth'', JNumber 42] empty_store =
     (Inl (IllegalValue ''Values supplied to @before decorator must be strings.''), empty_store)"
proof -
  have h1: "JNumber 42 \<in> set [JString ''auth'', JNumber 42]" by simp
  have h2: "typeof (JNumber 42) \<noteq> ''string''" by simp
  from before_rejects_non_string [OF h1 h2, of empty_store] h1 h2
  show ?thesis by blast
qed

text \<open>
  Claim C4. \<^verbatim>\<open>before()\<close> with no argument returns a configurator and leaves the store
  alone; applying that configurator to method \<open>m\<close> of a target throws \<^verbatim>\<open>NotFound\<close> with a
  message that names \<open>m\<close>, and the store is still as it was.
\<close>

theorem before_empty:
  "(\<exists>cfg. fst (before [] s) = Inr cfg) \<and>
   snd (before [] s) = s \<and>
   decorate [] target (Some m) s =
     (Inl (NotFound (''Empty @before supplied on method '' @ m @ '' of Resource '' @
                     typeof target)), s)"
  by (simp add: before_def decorate_def before_configurator_def key_text_def)

text \<open>
  Claim C5. For a non-empty list \<open>rest\<close> of strings, \<^verbatim>\<open>before\<close> returns a configurator.
  Applied with the key \<^verbatim>\<open>undefined\<close> to a target whose \<^verbatim>\<open>prototype\<close> is \<open>proto\<close>, it
  makes the single write of \<open>rest\<close> as class-level metadata of \<open>proto\<close> under namespace
  \<^verbatim>\<open>@before\<close> and key \<^verbatim>\<open>middleware\<close>, which then reads back as \<open>rest\<close>, method-level
  metadata being untouched. Applied with a method name \<open>m\<close>, it makes instead the single
  write of \<open>rest\<close> as method-level metadata of \<open>m\<close> on the target, class-level metadata
  being untouched.
\<close>

theorem before_writes:
  assumes "rest \<noteq> []" and "\<forall>r\<in>set rest. typeof r = ''string''"
    and "get_prototype target = Inr proto"
  shows "(\<exists>cfg. fst (before rest s) = Inr cfg) \<and>
         snd (before rest s) = s \<and>
         decorate rest target None s =
           (Inr (), putClassMeta s proto ''@before'' ''middleware'' (JArray rest)) \<and>
         class_value (getMeta (snd (decorate rest target None s)) proto)
             ''@before'' ''middleware'' = Some (JArray rest) \<and>
         method_meta (getMeta (snd (decorate rest target None s)) proto) =
           method_meta (getMeta s proto) \<and>
         decorate rest target' (Some m) s =
           (Inr (), putMethodMeta s target' m ''@before'' ''middleware'' (JArray rest)) \<and>
         method_value (getMeta (snd (decorate rest target' (Some m) s)) target') m
             ''@before'' ''middleware'' = Some (JArray rest) \<and>
         class_meta (getMeta (snd (decorate rest target' (Some m) s)) target') =
           class_meta (getMeta s target')"
  using assms
  by (simp add: before_def decorate_def before_validate_strings before_configurator_def
      class_value_putClassMeta method_meta_putClassMeta
      method_value_putMethodMeta class_meta_putMethodMeta)

theorem before_writes_witness:
  "[JString ''auth'', JString ''log''] \<noteq> [] \<and>
   typeof (JString ''auth'') = ''string'' \<and> typeof (JString ''log'') = ''string'' \<and>
   get_prototype (JClass 0) = Inr (JPrototype 0) \<and>
   class_value
     (getMeta (snd (decorate [JString ''auth'', JString ''log''] (JClass 0) None empty_store))
        (JPrototype 0))
     ''@before'' ''middleware'' = Some (JArray [JString ''auth'', JString ''log'']) \<and>
   method_value
     (getMeta (snd (decorate [JString ''auth'', JString ''log''] (JPrototype 0) (Some ''get'')
                      empty_store)) (JPrototype 0))
     ''get'' ''@before'' ''middleware'' = Some (JArray [JString ''auth'', JString ''log''])"
proof -
  have h1: "[JString ''auth'', JString ''log''] \<noteq> []" by simp
  have h2: "\<forall>r\<in>set [JString ''auth'', JString ''log'']. typeof r = ''string''" by simp
  have h3: "get_prototype (JClass 0) = Inr (JPrototype 0)" by simp
  from before_writes [OF h1 h2 h3, where s = empty_store and target' = "JPrototype 0"
      and m = "''get''"]
  have "class_value
     (getMeta (snd (decorate [JString ''auth'', JString ''log''] (JClass 0) None empty_store))
        (JPrototype 0))
     ''@before'' ''middleware'' = Some (JArray [JString ''auth'', JString ''log''])"
    and "method_value
     (getMeta (snd (decorate [JString ''auth'', JString ''log''] (JPrototype 0) (Some ''get'')
                      empty_store)) (JPrototype 0))
     ''get'' ''@before'' ''middleware'' = Some (JArray [JString ''auth'', JString ''log''])"
    by blast+
  then show ?thesis by simp
qed

lemma scenario_reflect:
  "fst (reflect scenario_app ''/foo.js'' scenario_world) =
     Inr \<lparr>path = ''/foo.js'', klass = JClass 0, registeredAt = 0\<rparr>"
  by (simp add: scenario_world_def fst_reflect get_prop_registerClassFunc Meta_new_def)

lemma scenario_decorate_class:
  "decorate [JString ''auth'', JString ''log''] (JClass 0) None empty_store =
     (Inr (), putClassMeta empty_store (JPrototype 0) ''@before'' ''middleware''
                (JArray [JString ''auth'', JString ''log'']))"
  by (simp add: decorate_def before_def before_configurator_def)

lemma scenario_decorate_method:
  "decorate [JString ''cache''] (JPrototype 0) (Some ''get'') s =
     (Inr (), putMethodMeta s (JPrototype 0) ''get'' ''@before'' ''middleware''
                (JArray [JString ''cache'']))"
  by (simp add: decorate_def before_def before_configurator_def)

lemma scenario_store_eq:
  "scenario_store =
     putMethodMeta
       (putClassMeta empty_store (JPrototype 0) ''@before'' ''middleware''
          (JArray [JString ''auth'', JString ''log'']))
       (JPrototype 0) ''get'' ''@before'' ''middleware'' (JArray [JString ''cache''])"
  by (simp add: scenario_store_def scenario_decorate_class scenario_decorate_method)

lemma scenario_view:
  "getMeta scenario_store (JPrototype 0) =
     \<lparr>class_meta = [(''@before'', [(''middleware'', JArray [JString ''auth'', JString ''log''])])],
      method_meta = [(''get'', [(''@before'', [(''middleware'', JArray [JString ''cache''])])])]\<rparr>"
  by (simp add: scenario_store_eq getMeta_def
      putClassMeta_def putMethodMeta_def put_category_def empty_store_def or_empty_def
      get_prop_def set_prop_def)

text \<open>
  Claim C6, as stated, fails: the namespace under which the decorator writes is the literal
  \<^verbatim>\<open>@before\<close>. In the scenario the class-level view is
  \<^verbatim>\<open>{"@before": {"middleware": ["auth", "log"]}}\<close>, which is not the claimed
  \<^verbatim>\<open>{"before": {"middleware": ["auth", "log"]}}\<close>; nothing is stored under \<^verbatim>\<open>before\<close>.
\<close>

theorem scenario_namespace_is_not_before:
  "fst (reflect scenario_app ''/foo.js'' scenario_world) =
     Inr \<lparr>path = ''/foo.js'', klass = JClass 0, registeredAt = 0\<rparr> \<and>
   metadata \<lparr>path = ''/foo.js'', klass = JClass 0, registeredAt = 0\<rparr> scenario_store =
     Inr \<lparr>class_meta = [(''@before'', [(''middleware'', JArray [JString ''auth'', JString ''log''])])],
          method_meta = [(''get'', [(''@before'', [(''middleware'', JArray [JString ''cache''])])])]\<rparr> \<and>
   [(''@before'', [(''middleware'', JArray [JString ''auth'', JString ''log''])])] \<noteq>
   [(''before'', [(''middleware'', JArray [JString ''auth'', JString ''log''])])] \<and>
   class_value (scenario_store (JPrototype 0)) ''before'' ''middleware'' = None"
  using scenario_view
  by (simp add: scenario_reflect metadata_def class_value_def getMeta_def or_empty_def get_prop_def)

text \<open>
  Claim C6, amended. In the scenario both decorators succeed, the record found at
  \<^verbatim>\<open>/foo.js\<close> has the class-level view \<^verbatim>\<open>{"@before": {"middleware": ["auth", "log"]}}\<close>,
  and the effective middleware list of method \<^verbatim>\<open>get\<close> under namespace \<^verbatim>\<open>@before\<close> is
  \<^verbatim>\<open>["auth", "log", "cache"]\<close>, class-level entries first.
\<close>

theorem scenario_end_to_end:
  "fst (decorate [JString ''auth'', JString ''log''] (JClass 0) None empty_store) = Inr () \<and>
   fst (decorate [JString ''cache''] (JPrototype 0) (Some ''get'')
          (snd (decorate [JString ''auth'', JString ''log''] (JClass 0) None empty_store))) = Inr () \<and>
   (case fst (reflect scenario_app ''/foo.js'' scenario_world) of
      Inl e \<Rightarrow> False
    | Inr m \<Rightarrow>
        (case metadata m scenario_store of
           Inl e \<Rightarrow> False
         | Inr md \<Rightarrow>
             class_meta md =
               [(''@before'', [(''middleware'', JArray [JString ''auth'', JString ''log''])])] \<and>
             effective_middleware md ''@before'' ''get'' =
               [JString ''auth'', JString ''log'', JString ''cache'']))"
  by (simp add: scenario_reflect scenario_decorate_class scenario_decorate_method metadata_def
      scenario_view effective_middleware_def middleware_of_def or_empty_def get_prop_def)

end
